theory Spec2Isabelle
  imports Complex_Main
begin

section \<open>Failures\<close>

text \<open>
  Every way in which a call of the builder can fail to return is a value of \<open>error\<close>:
  the exceptions that are thrown, and the operations whose behaviour C++ leaves undefined
  (signed overflow of an \<open>int\<close>, division by zero).  \<open>SubBuilderFailure\<close> stands for
  any exception a sub-builder's \<open>build()\<close> lets escape, other than the documented
  \<open>NoGpuSupportException\<close>.  \<open>LengthError\<close> is \<open>std::length_error\<close> and
  \<open>BadAlloc\<close> is \<open>std::bad_alloc\<close>, the exception of an allocator that cannot
  provide the storage a vector asks for.
\<close>

datatype error =
    NoGpuSupportException
  | LengthError
  | BadAlloc
  | SignedOverflow
  | DivisionByZero
  | SubBuilderFailure nat

section \<open>The C++ type \<open>int\<close>\<close>

text \<open>
  Values of the C++ type \<open>int\<close> are integers between \<open>INT_MIN\<close> and \<open>INT_MAX\<close>
  (32 bits on the platforms the library builds on).  An arithmetic result outside this
  range is undefined behaviour; the model makes it the failure \<open>SignedOverflow\<close>.
\<close>

definition INT_MAX :: int where
  "INT_MAX = 2147483647"

definition INT_MIN :: int where
  "INT_MIN = - 2147483648"

definition is_int :: "int \<Rightarrow> bool" where
  "is_int x \<longleftrightarrow> INT_MIN \<le> x \<and> x \<le> INT_MAX"

definition int_overflow :: "int \<Rightarrow> bool" where
  "int_overflow x \<longleftrightarrow> \<not> is_int x"

text \<open>The operator \<open>/\<close> on two \<open>int\<close>s: truncation towards zero.\<close>

definition int_div :: "int \<Rightarrow> int \<Rightarrow> error + int" where
  "int_div a b =
     (if b = 0 then Inl DivisionByZero
      else if int_overflow (sgn a * sgn b * (\<bar>a\<bar> div \<bar>b\<bar>)) then Inl SignedOverflow
      else Inr (sgn a * sgn b * (\<bar>a\<bar> div \<bar>b\<bar>)))"

section \<open>The builder and what it builds\<close>

text \<open>
  The object model and the transition model are used through one query each
  (\<open>count_parts()\<close>, \<open>noise_dimension()\<close>, both \<open>int\<close>); the records hold the answer.
  The camera data, the observation model and the \<open>double\<close> parameters are only handed
  on, never computed with, so they are type parameters.  A sub-builder is used through
  \<open>build()\<close> alone and is represented by what that call does: it throws (\<open>Inl\<close>) or
  returns a model (\<open>Inr\<close>).  All shared pointers are taken to be non-null.  The member
  \<open>object_model_\<close> of the source is the field \<open>this_object_model\<close>, and so for
  the other members (a name cannot end with an underscore here).
\<close>

record ObjectModel =
  count_parts :: int

record StateTransition =
  noise_dimension :: int

record 'd Parameters =
  evaluation_count :: int
  moving_average_update_rate :: 'd
  max_kl_divergence :: 'd

record ('om, 'cam, 'd) RbcParticleFilterTrackerBuilder =
  this_state_transition_builder :: "error + StateTransition"
  this_obsrv_model_builder :: "error + 'om"
  this_object_model :: ObjectModel
  this_camera_data :: 'cam
  this_params :: "'d Parameters"

text \<open>
  The filter and the tracker are constructed by classes outside this file; a constructed
  object is the record of the arguments its constructor received.
\<close>

record ('om, 'd) Filter =
  filter_state_transition_model :: StateTransition
  filter_obsrv_model :: 'om
  filter_sampling_blocks :: "nat list list"
  filter_max_kl_divergence :: 'd

record ('om, 'cam, 'd) RbcParticleFilterObjectTracker =
  tracker_filter :: "('om, 'd) Filter"
  tracker_object_model :: ObjectModel
  tracker_camera_data :: 'cam
  tracker_evaluation_count :: int
  tracker_update_rate :: 'd

section \<open>\<open>create_sampling_blocks\<close>\<close>

text \<open>
  The inner loop \<open>for (int k = 0; k < block_size; ++k)\<close> of block \<open>i\<close>:
  \<open>row\<close> is \<open>sampling_blocks[i]\<close>.  The index \<open>i * block_size + k\<close> is computed in
  \<open>int\<close> and then converted to \<open>size_t\<close>.
\<close>

function inner_loop :: "int \<Rightarrow> int \<Rightarrow> int \<Rightarrow> nat list \<Rightarrow> error + nat list" where
  "inner_loop i block_size k row =
     (if k < block_size then
        (if int_overflow (i * block_size) \<or> int_overflow (i * block_size + k)
         then Inl SignedOverflow
         else inner_loop i block_size (k + 1) (row @ [nat (i * block_size + k)]))
      else Inr row)"
  by pat_completeness auto
termination
  by (relation "measure (\<lambda>(i, block_size, k, row). nat (block_size - k))") auto

text \<open>The outer loop \<open>for (int i = 0; i < blocks; ++i)\<close>.\<close>

function outer_loop :: "int \<Rightarrow> int \<Rightarrow> int \<Rightarrow> nat list list \<Rightarrow> error + nat list list" where
  "outer_loop blocks block_size i sampling_blocks =
     (if i < blocks then
        (case inner_loop i block_size 0 (sampling_blocks ! nat i) of
           Inl e \<Rightarrow> Inl e
         | Inr row \<Rightarrow>
             outer_loop blocks block_size (i + 1) (sampling_blocks[nat i := row]))
      else Inr sampling_blocks)"
  by pat_completeness auto
termination
  by (relation "measure (\<lambda>(blocks, block_size, i, sampling_blocks). nat (blocks - i))") auto

text \<open>
  \<open>std::vector<std::vector<size_t>> sampling_blocks(blocks)\<close> converts \<open>blocks\<close> to
  \<open>size_t\<close>; a negative value becomes a size beyond \<open>max_size()\<close> and the constructor
  throws \<open>std::length_error\<close>.  Storage is unbounded here: no allocation fails (the
  call in bounded storage is \<open>create_sampling_blocks_bounded\<close> below).  The
  method is a \<open>const\<close> member: it is given the builder and returns it together with
  its result.
\<close>

definition create_sampling_blocks ::
  "('om, 'cam, 'd) RbcParticleFilterTrackerBuilder \<Rightarrow> int \<Rightarrow> int
     \<Rightarrow> (error + nat list list) \<times> ('om, 'cam, 'd) RbcParticleFilterTrackerBuilder" where
  "create_sampling_blocks this blocks block_size =
     (if blocks < 0 then (Inl LengthError, this)
      else (outer_loop blocks block_size 0 (replicate (nat blocks) []), this))"

text \<open>
  The contents the documentation gives the block of part \<open>i\<close>: the \<open>block_size\<close>
  consecutive indices from \<open>i * block_size\<close> on.
\<close>

definition block_indices :: "nat \<Rightarrow> nat \<Rightarrow> nat list" where
  "block_indices block_size i = [i * block_size ..< i * block_size + block_size]"

section \<open>\<open>create_sampling_blocks\<close> in bounded storage\<close>

text \<open>
  The method contains no \<open>throw\<close>, but the vector operations it calls obtain storage
  from the allocator, which throws \<open>std::bad_alloc\<close> when it has none to give.  The
  definitions of this section are the same call in a process whose allocator can hold
  \<open>memory\<close> bytes of vector contents: every row object of the outer vector takes
  \<open>sizeof(std::vector<size_t>)\<close> bytes, every index \<open>sizeof(size_t)\<close> bytes (three
  pointers and one word on the 64-bit platforms the library builds on), and \<open>used\<close>
  is the number of bytes taken so far.  Spare capacity of a row, and the copy that
  exists while a row grows, are not counted.
\<close>

definition sizeof_vector :: nat where
  "sizeof_vector = 24"

definition sizeof_size_t :: nat where
  "sizeof_size_t = 8"

text \<open>
  The inner loop: the argument \<open>i * block_size + k\<close> is computed first, then
  \<open>push_back\<close> takes the storage of one more index.
\<close>

function inner_loop_bounded ::
  "nat \<Rightarrow> int \<Rightarrow> int \<Rightarrow> int \<Rightarrow> nat list \<Rightarrow> nat \<Rightarrow> error + nat list \<times> nat" where
  "inner_loop_bounded memory i block_size k row used =
     (if k < block_size then
        (if int_overflow (i * block_size) \<or> int_overflow (i * block_size + k)
         then Inl SignedOverflow
         else if memory < used + sizeof_size_t then Inl BadAlloc
         else inner_loop_bounded memory i block_size (k + 1)
                (row @ [nat (i * block_size + k)]) (used + sizeof_size_t))
      else Inr (row, used))"
  by pat_completeness auto
termination
  by (relation "measure (\<lambda>(memory, i, block_size, k, row, used). nat (block_size - k))") auto

function outer_loop_bounded ::
  "nat \<Rightarrow> int \<Rightarrow> int \<Rightarrow> int \<Rightarrow> nat list list \<Rightarrow> nat \<Rightarrow> error + nat list list" where
  "outer_loop_bounded memory blocks block_size i sampling_blocks used =
     (if i < blocks then
        (case inner_loop_bounded memory i block_size 0 (sampling_blocks ! nat i) used of
           Inl e \<Rightarrow> Inl e
         | Inr r \<Rightarrow>
             outer_loop_bounded memory blocks block_size (i + 1)
               (sampling_blocks[nat i := fst r]) (snd r))
      else Inr sampling_blocks)"
  by pat_completeness auto
termination
  by (relation "measure (\<lambda>(memory, blocks, block_size, i, sampling_blocks, used).
        nat (blocks - i))") auto

text \<open>
  The constructor \<open>sampling_blocks(blocks)\<close> takes the storage of \<open>blocks\<close> row
  objects at once, after the check of the size that throws \<open>std::length_error\<close>.
\<close>

definition create_sampling_blocks_bounded ::
  "nat \<Rightarrow> ('om, 'cam, 'd) RbcParticleFilterTrackerBuilder \<Rightarrow> int \<Rightarrow> int
     \<Rightarrow> (error + nat list list) \<times> ('om, 'cam, 'd) RbcParticleFilterTrackerBuilder" where
  "create_sampling_blocks_bounded memory this blocks block_size =
     (if blocks < 0 then (Inl LengthError, this)
      else if memory < sizeof_vector * nat blocks then (Inl BadAlloc, this)
      else (outer_loop_bounded memory blocks block_size 0 (replicate (nat blocks) [])
              (sizeof_vector * nat blocks), this))"

section \<open>\<open>create_filter\<close> and \<open>build\<close>\<close>

text \<open>The constructor stores its five arguments.\<close>

definition new_RbcParticleFilterTrackerBuilder ::
  "error + StateTransition \<Rightarrow> error + 'om \<Rightarrow> ObjectModel \<Rightarrow> 'cam \<Rightarrow> 'd Parameters
     \<Rightarrow> ('om, 'cam, 'd) RbcParticleFilterTrackerBuilder" where
  "new_RbcParticleFilterTrackerBuilder state_transition_builder obsrv_model_builder
       object_model camera_data params =
     \<lparr> this_state_transition_builder = state_transition_builder,
       this_obsrv_model_builder = obsrv_model_builder,
       this_object_model = object_model,
       this_camera_data = camera_data,
       this_params = params \<rparr>"

text \<open>
  \<open>create_filter\<close> builds the two models, then the sampling blocks from
  \<open>count_parts()\<close> and \<open>noise_dimension() / count_parts()\<close>, then the filter.  An
  exception or an undefined operation at any step ends the call there.  The methods
  are virtual; the definitions are those of this class.
\<close>

definition create_filter ::
  "('om, 'cam, 'd) RbcParticleFilterTrackerBuilder \<Rightarrow> ObjectModel \<Rightarrow> 'd
     \<Rightarrow> error + ('om, 'd) Filter" where
  "create_filter this object_model max_kl_div =
     (case this_state_transition_builder this of
        Inl e \<Rightarrow> Inl e
      | Inr state_transition_model \<Rightarrow>
     (case this_obsrv_model_builder this of
        Inl e \<Rightarrow> Inl e
      | Inr obsrv_model \<Rightarrow>
     (case int_div (noise_dimension state_transition_model) (count_parts object_model) of
        Inl e \<Rightarrow> Inl e
      | Inr block_size \<Rightarrow>
     (case fst (create_sampling_blocks this (count_parts object_model) block_size) of
        Inl e \<Rightarrow> Inl e
      | Inr sampling_blocks \<Rightarrow>
          Inr \<lparr> filter_state_transition_model = state_transition_model,
                filter_obsrv_model = obsrv_model,
                filter_sampling_blocks = sampling_blocks,
                filter_max_kl_divergence = max_kl_div \<rparr>))))"

definition build ::
  "('om, 'cam, 'd) RbcParticleFilterTrackerBuilder
     \<Rightarrow> error + ('om, 'cam, 'd) RbcParticleFilterObjectTracker" where
  "build this =
     (case create_filter this (this_object_model this) (max_kl_divergence (this_params this)) of
        Inl e \<Rightarrow> Inl e
      | Inr the_filter \<Rightarrow>
          Inr \<lparr> tracker_filter = the_filter,
                tracker_object_model = this_object_model this,
                tracker_camera_data = this_camera_data this,
                tracker_evaluation_count = evaluation_count (this_params this),
                tracker_update_rate = moving_average_update_rate (this_params this) \<rparr>)"


section \<open>The observation model builder\<close>

text \<open>
  Modelled from the spec: \<open>RbObservationModelBuilder::build()\<close>, which is not among the
  sources.  The builder "is responsible for surfacing a NoGpuSupport-style configuration
  error when a GPU-dependent observation model is requested without GPU support compiled
  in"; \<open>create_filter\<close> documents it as "throws NoGpuSupportException if compile with
  DBOT_BUILD_GPU=OFF and attempting to build a tracker with GPU support".  The first
  argument is the compile-time switch \<open>DBOT_BUILD_GPU\<close>, the second whether the GPU
  model is requested.
\<close>

datatype obsrv_model = CpuObservationModel | GpuObservationModel

definition RbObservationModelBuilder_build :: "bool \<Rightarrow> bool \<Rightarrow> error + obsrv_model" where
  "RbObservationModelBuilder_build dbot_build_gpu use_gpu =
     (if use_gpu then
        (if dbot_build_gpu then Inr GpuObservationModel else Inl NoGpuSupportException)
      else Inr CpuObservationModel)"

section \<open>The particle filter's prediction\<close>

text \<open>
  Modelled from the spec: the \<open>predict\<close> step of the coordinate particle filter, whose
  class is not among the sources: "for each particle, sample a noise vector, push its
  state through the Transition Model with the given input, producing a new particle set
  with unchanged weights".  A particle is a pair of a state and a weight.  Sampling is
  a function on the state of the random generator, which is passed along.
\<close>

fun predict ::
  "('s \<Rightarrow> 'n \<Rightarrow> 'u \<Rightarrow> 's) \<Rightarrow> ('g \<Rightarrow> 'n \<times> 'g) \<Rightarrow> 'g \<Rightarrow> ('s \<times> 'w) list \<Rightarrow> 'u
     \<Rightarrow> ('s \<times> 'w) list \<times> 'g" where
  "predict transition sample g [] input = ([], g)"
| "predict transition sample g ((state, weight) # belief) input =
     (let (noise, g') = sample g;
          (belief', g'') = predict transition sample g' belief input
      in ((transition state noise input, weight) # belief', g''))"

text \<open>The noise vectors \<open>predict\<close> draws, in the order of the particles.\<close>

fun sampled_noise :: "('g \<Rightarrow> 'n \<times> 'g) \<Rightarrow> 'g \<Rightarrow> nat \<Rightarrow> 'n list" where
  "sampled_noise sample g 0 = []"
| "sampled_noise sample g (Suc n) = fst (sample g) # sampled_noise sample (snd (sample g)) n"

section \<open>The tracker's moving average\<close>

text \<open>
  Modelled from the spec: the smoothing in \<open>on_track\<close>, whose body is not among the
  sources: "applies exponential moving-average smoothing (rate =
  moving_average_update_rate) to the returned point estimate", the tracker owning "a
  moving-average smoothing state".  The \<open>double\<close> arithmetic is idealised as arithmetic
  of real vectors.  \<open>update_moving_average\<close> is one step; \<open>on_track_smoothed\<close> is the
  smoothing state after a stream of point estimates, one per call of \<open>on_track\<close>.
\<close>

definition update_moving_average ::
  "real \<Rightarrow> 'a::real_normed_vector \<Rightarrow> 'a \<Rightarrow> 'a" where
  "update_moving_average update_rate moving_average estimate =
     (1 - update_rate) *\<^sub>R moving_average + update_rate *\<^sub>R estimate"

fun on_track_smoothed :: "real \<Rightarrow> 'a::real_normed_vector \<Rightarrow> 'a list \<Rightarrow> 'a" where
  "on_track_smoothed update_rate moving_average [] = moving_average"
| "on_track_smoothed update_rate moving_average (estimate # estimates) =
     on_track_smoothed update_rate
       (update_moving_average update_rate moving_average estimate) estimates"

section \<open>Example data\<close>

text \<open>
  Builders on which the definitions are run: \<open>example_builder\<close> for an object of two
  parts whose transition model has noise dimension 7, \<open>divisible_builder\<close> the same
  with noise dimension 6, and \<open>gpu_builder\<close> whose observation model builder is asked
  for the GPU model in a build without GPU support.
\<close>

definition example_builder :: "(unit, unit, unit) RbcParticleFilterTrackerBuilder" where
  "example_builder =
     new_RbcParticleFilterTrackerBuilder (Inr \<lparr>noise_dimension = 7\<rparr>) (Inr ())
       \<lparr>count_parts = 2\<rparr> ()
       \<lparr>evaluation_count = 100, moving_average_update_rate = (), max_kl_divergence = ()\<rparr>"


definition gpu_builder :: "(obsrv_model, unit, unit) RbcParticleFilterTrackerBuilder" where
  "gpu_builder =
     new_RbcParticleFilterTrackerBuilder (Inr \<lparr>noise_dimension = 6\<rparr>)
       (RbObservationModelBuilder_build False True)
       \<lparr>count_parts = 1\<rparr> ()
       \<lparr>evaluation_count = 100, moving_average_update_rate = (), max_kl_divergence = ()\<rparr>"

section \<open>What the two loops compute\<close>

text \<open>
  The loops run on concrete arguments.  In the proofs their equations are used one
  unfolding at a time, by induction along the loops' own recursion.
\<close>

lemma create_sampling_blocks_runs:
  "fst (create_sampling_blocks example_builder 2 3) = Inr [[0, 1, 2], [3, 4, 5]]
   \<and> fst (create_sampling_blocks example_builder 3 (- 2)) = Inr [[], [], []]
   \<and> fst (create_sampling_blocks example_builder 0 3) = Inr []
   \<and> fst (create_sampling_blocks example_builder (- 1) 3) = Inl LengthError"
  by code_simp

declare inner_loop.simps [simp del] outer_loop.simps [simp del]

lemma int_overflow_nonneg: "0 \<le> x \<Longrightarrow> int_overflow x \<longleftrightarrow> INT_MAX < x"
  by (auto simp: int_overflow_def is_int_def INT_MIN_def INT_MAX_def)

lemma inner_loop_char:
  "0 \<le> i \<Longrightarrow> 0 \<le> k \<Longrightarrow>
   inner_loop i block_size k row =
     (if k < block_size \<and> INT_MAX < i * block_size + (block_size - 1) then Inl SignedOverflow
      else Inr (row @ map nat [i * block_size + k .. i * block_size + block_size - 1]))"
proof (induction i block_size k row rule: inner_loop.induct)
  case (1 i block_size k row)
  show ?case
  proof (cases "k < block_size")
    case False
    then show ?thesis by (subst inner_loop.simps) simp
  next
    case True
    with 1(2,3) have bs: "0 < block_size" and ib: "0 \<le> i * block_size" by auto
    have ov: "(int_overflow (i * block_size) \<or> int_overflow (i * block_size + k))
        \<longleftrightarrow> INT_MAX < i * block_size + k"
      using ib 1(3) by (auto simp: int_overflow_nonneg)
    show ?thesis
    proof (cases "INT_MAX < i * block_size + k")
      case over: True
      then have "INT_MAX < i * block_size + (block_size - 1)" using True by linarith
      with over True ov show ?thesis by (subst inner_loop.simps) simp
    next
      case ok: False
      have IH: "inner_loop i block_size (k + 1) (row @ [nat (i * block_size + k)]) =
        (if k + 1 < block_size \<and> INT_MAX < i * block_size + (block_size - 1) then Inl SignedOverflow
         else Inr ((row @ [nat (i * block_size + k)]) @
                map nat [i * block_size + (k + 1) .. i * block_size + block_size - 1]))"
        using 1(1)[OF True _ 1(2)] ov ok 1(3) by simp
      have last: "\<not> k + 1 < block_size \<Longrightarrow> \<not> INT_MAX < i * block_size + (block_size - 1)"
        using ok True by simp
      have up: "[i * block_size + k .. i * block_size + block_size - 1] =
         (i * block_size + k) # [i * block_size + (k + 1) .. i * block_size + block_size - 1]"
        using True by (subst upto_rec1) (simp_all add: add.assoc)
      show ?thesis
        using True ov ok IH last up by (subst inner_loop.simps) auto
    qed
  qed
qed

lemma map_nat_upto: "0 \<le> a \<Longrightarrow> map nat [a .. b] = [nat a ..< nat (b + 1)]"
proof (induction a b rule: upto.induct)
  case (1 a b)
  show ?case
  proof (cases "a \<le> b")
    case True
    then have "map nat [a + 1 .. b] = [nat (a + 1) ..< nat (b + 1)]"
      using 1 by simp
    moreover have "[a .. b] = a # [a + 1 .. b]"
      using True by (simp add: upto_rec1)
    moreover have "[nat a ..< nat (b + 1)] = nat a # [nat (a + 1) ..< nat (b + 1)]"
    proof -
      have lt: "nat a < nat (b + 1)" using True 1(2) by linarith
      have s: "nat (a + 1) = Suc (nat a)" using 1(2) by linarith
      show ?thesis unfolding s by (rule upt_conv_Cons [OF lt])
    qed
    ultimately show ?thesis by simp
  next
    case False
    then show ?thesis by simp
  qed
qed

lemma block_row_indices:
  assumes "0 \<le> i"
  shows "map nat [i * block_size .. i * block_size + block_size - 1] =
         block_indices (nat block_size) (nat i)"
proof (cases "0 < block_size")
  case True
  then have "0 \<le> i * block_size" using assms by simp
  then have "map nat [i * block_size .. i * block_size + block_size - 1] =
      [nat (i * block_size) ..< nat (i * block_size + block_size)]"
    by (simp add: map_nat_upto)
  also have "nat (i * block_size) = nat i * nat block_size"
    using assms by (simp add: nat_mult_distrib)
  also have "nat (i * block_size + block_size) = nat i * nat block_size + nat block_size"
    using assms True by (simp add: nat_add_distrib nat_mult_distrib)
  finally show ?thesis by (simp add: block_indices_def)
next
  case False
  then show ?thesis by (simp add: block_indices_def)
qed

lemma inner_loop_start:
  "0 \<le> i \<Longrightarrow>
   inner_loop i block_size 0 [] =
     (if 0 < block_size \<and> INT_MAX < i * block_size + (block_size - 1) then Inl SignedOverflow
      else Inr (block_indices (nat block_size) (nat i)))"
  using block_row_indices [of i block_size] by (simp add: inner_loop_char)

lemma outer_loop_char:
  "0 \<le> i \<Longrightarrow> i \<le> blocks \<Longrightarrow> length sb = nat blocks \<Longrightarrow>
   \<forall>j. nat i \<le> j \<and> j < nat blocks \<longrightarrow> sb ! j = [] \<Longrightarrow>
   outer_loop blocks block_size i sb =
     (if i < blocks \<and> 0 < block_size \<and> INT_MAX < blocks * block_size - 1 then Inl SignedOverflow
      else Inr (take (nat i) sb @ map (block_indices (nat block_size)) [nat i ..< nat blocks]))"
proof (induction blocks block_size i sb rule: outer_loop.induct)
  case (1 blocks block_size i sb)
  show ?case
  proof (cases "i < blocks")
    case False
    with 1(3,4) show ?thesis by (subst outer_loop.simps) simp
  next
    case True
    have empty: "sb ! nat i = []" using 1(2,5) True by simp
    show ?thesis
    proof (cases "0 < block_size \<and> INT_MAX < i * block_size + (block_size - 1)")
      case over: True
      have "i * block_size \<le> (blocks - 1) * block_size"
        using True over by (intro mult_right_mono) auto
      then have "INT_MAX < blocks * block_size - 1"
        using over by (simp add: algebra_simps)
      then show ?thesis
        using True over empty 1(2) by (subst outer_loop.simps) (simp add: inner_loop_start)
    next
      case ok: False
      define row where "row = block_indices (nat block_size) (nat i)"
      have inner: "inner_loop i block_size 0 (sb ! nat i) = Inr row"
        using ok 1(2) empty by (simp add: inner_loop_start row_def)
      have IH: "outer_loop blocks block_size (i + 1) (sb[nat i := row]) =
        (if i + 1 < blocks \<and> 0 < block_size \<and> INT_MAX < blocks * block_size - 1
         then Inl SignedOverflow
         else Inr (take (nat (i + 1)) (sb[nat i := row]) @
                   map (block_indices (nat block_size)) [nat (i + 1) ..< nat blocks]))"
      proof (rule 1(1)[OF True inner])
        show "0 \<le> i + 1" using 1(2) by simp
        show "i + 1 \<le> blocks" using True by simp
        show "length (sb[nat i := row]) = nat blocks" using 1(4) by simp
        show "\<forall>j. nat (i + 1) \<le> j \<and> j < nat blocks \<longrightarrow> sb[nat i := row] ! j = []"
          using 1(2,5) by (auto simp: nat_add_distrib)
      qed
      have lt: "nat i < length sb" using True 1(2,4) by simp
      have tk: "take (nat (i + 1)) (sb[nat i := row]) = take (nat i) sb @ [row]"
        using lt 1(2) by (simp add: nat_add_distrib take_Suc_conv_app_nth)
      have up: "[nat i ..< nat blocks] = nat i # [nat (i + 1) ..< nat blocks]"
        using True 1(2) by (simp add: upt_conv_Cons nat_add_distrib)
      have fin: "\<not> i + 1 < blocks \<Longrightarrow> \<not> (0 < block_size \<and> INT_MAX < blocks * block_size - 1)"
      proof -
        assume "\<not> i + 1 < blocks"
        with True have "blocks = i + 1" by simp
        with ok show ?thesis by (simp add: algebra_simps)
      qed
      have res: "outer_loop blocks block_size i sb =
          outer_loop blocks block_size (i + 1) (sb[nat i := row])"
        using True inner by (subst outer_loop.simps) simp
      show ?thesis
        unfolding res IH using True fin tk up 1(2) by (auto simp: row_def)
    qed
  qed
qed

lemma create_sampling_blocks_char:
  "fst (create_sampling_blocks this blocks block_size) =
     (if blocks < 0 then Inl LengthError
      else if 0 < block_size \<and> INT_MAX + 1 < blocks * block_size then Inl SignedOverflow
      else Inr (map (block_indices (nat block_size)) [0 ..< nat blocks]))"
proof (cases "blocks < 0")
  case True
  then show ?thesis by (simp add: create_sampling_blocks_def)
next
  case False
  have z: "0 < block_size \<Longrightarrow> INT_MAX + 1 < blocks * block_size \<Longrightarrow> 0 < blocks"
    using False by (cases "blocks = 0") (auto simp: INT_MAX_def)
  have "outer_loop blocks block_size 0 (replicate (nat blocks) []) =
     (if 0 < blocks \<and> 0 < block_size \<and> INT_MAX < blocks * block_size - 1 then Inl SignedOverflow
      else Inr (take (nat 0) (replicate (nat blocks) []) @
                map (block_indices (nat block_size)) [nat 0 ..< nat blocks]))"
    using False by (intro outer_loop_char) auto
  then show ?thesis
    using False z by (auto simp: create_sampling_blocks_def)
qed

lemma concat_block_indices:
  "concat (map (block_indices m) [0 ..< n]) = [0 ..< n * m]"
proof (induction n)
  case 0
  show ?case by simp
next
  case (Suc n)
  have "[0 ..< n * m + m] = [0 ..< n * m] @ [n * m ..< n * m + m]"
    by (rule upt_add_eq_append) simp
  with Suc show ?case by (simp add: block_indices_def add.commute)
qed


section \<open>What the loops compute in bounded storage\<close>

text \<open>
  The bounded loops run on concrete arguments.  Where the storage suffices for the row
  objects and all their indices they compute what the loops in unbounded storage do, and
  they never fail other than by \<open>BadAlloc\<close> or \<open>SignedOverflow\<close>.
\<close>

lemma create_sampling_blocks_bounded_runs:
  "fst (create_sampling_blocks_bounded 96 example_builder 2 3) = Inr [[0, 1, 2], [3, 4, 5]]
   \<and> fst (create_sampling_blocks_bounded 95 example_builder 2 3) = Inl BadAlloc
   \<and> fst (create_sampling_blocks_bounded 100 example_builder (- 1) 3) = Inl LengthError"
  by code_simp

declare inner_loop_bounded.simps [simp del] outer_loop_bounded.simps [simp del]







section \<open>What \<open>create_filter\<close> computes\<close>





lemma create_filter_Inr:
  "create_filter this object_model max_kl_div = Inr f \<longleftrightarrow>
     (\<exists>stm obm block_size.
        this_state_transition_builder this = Inr stm
      \<and> this_obsrv_model_builder this = Inr obm
      \<and> int_div (noise_dimension stm) (count_parts object_model) = Inr block_size
      \<and> 0 \<le> count_parts object_model
      \<and> \<not> (0 < block_size \<and> INT_MAX + 1 < count_parts object_model * block_size)
      \<and> f = \<lparr> filter_state_transition_model = stm,
               filter_obsrv_model = obm,
               filter_sampling_blocks =
                 map (block_indices (nat block_size)) [0 ..< nat (count_parts object_model)],
               filter_max_kl_divergence = max_kl_div \<rparr>)"
  by (auto simp: create_filter_def create_sampling_blocks_char split: sum.splits if_splits)

lemmas run_create_filter =
  create_filter_def new_RbcParticleFilterTrackerBuilder_def int_div_def int_overflow_def
  is_int_def INT_MAX_def INT_MIN_def create_sampling_blocks_char block_indices_def upt_rec

section \<open>What \<open>predict\<close> computes\<close>

lemma length_sampled_noise: "length (sampled_noise sample g n) = n"
  by (induction n arbitrary: g) simp_all

lemma predict_weights: "map snd (fst (predict transition sample g belief input)) = map snd belief"
proof (induction belief arbitrary: g)
  case Nil
  show ?case by simp
next
  case (Cons p belief)
  obtain state weight where p: "p = (state, weight)" by (cases p)
  show ?case
    using Cons [of "snd (sample g)"] by (simp add: p split_beta)
qed

lemma predict_states:
  "map fst (fst (predict transition sample g belief input)) =
     map2 (\<lambda>state noise. transition state noise input)
       (map fst belief) (sampled_noise sample g (length belief))"
proof (induction belief arbitrary: g)
  case Nil
  show ?case by simp
next
  case (Cons p belief)
  obtain state weight where p: "p = (state, weight)" by (cases p)
  show ?case
    using Cons [of "snd (sample g)"] by (simp add: p split_beta)
qed

section \<open>What the moving average computes\<close>

lemma update_moving_average_deviation:
  "update_moving_average r s x - c = (1 - r) *\<^sub>R (s - c) + r *\<^sub>R (x - c)"
  by (simp add: update_moving_average_def algebra_simps)

lemma on_track_smoothed_append:
  "on_track_smoothed r s (xs @ ys) = on_track_smoothed r (on_track_smoothed r s xs) ys"
  by (induction xs arbitrary: s) simp_all

lemma on_track_smoothed_constant:
  "on_track_smoothed r s (replicate n c) - c = (1 - r) ^ n *\<^sub>R (s - c)"
proof (induction n arbitrary: s)
  case 0
  show ?case by simp
next
  case (Suc n)
  have "on_track_smoothed r s (replicate (Suc n) c) - c =
      (1 - r) ^ n *\<^sub>R (update_moving_average r s c - c)"
    using Suc [of "update_moving_average r s c"] by simp
  also have "update_moving_average r s c - c = (1 - r) *\<^sub>R (s - c)"
    by (simp add: update_moving_average_deviation)
  finally show ?case by (simp add: mult.commute)
qed

lemma on_track_smoothed_outlier:
  "on_track_smoothed r s (replicate k c @ [x] @ replicate m c) - c =
     (1 - r) ^ (k + 1 + m) *\<^sub>R (s - c) + ((1 - r) ^ m * r) *\<^sub>R (x - c)"
proof -
  define s1 where "s1 = on_track_smoothed r s (replicate k c)"
  define s2 where "s2 = update_moving_average r s1 x"
  have 1: "s1 - c = (1 - r) ^ k *\<^sub>R (s - c)"
    by (simp add: s1_def on_track_smoothed_constant)
  have 2: "s2 - c = (1 - r) *\<^sub>R (s1 - c) + r *\<^sub>R (x - c)"
    by (simp add: s2_def update_moving_average_deviation)
  have "on_track_smoothed r s (replicate k c @ [x] @ replicate m c) =
      on_track_smoothed r s2 (replicate m c)"
    by (simp add: on_track_smoothed_append s1_def s2_def)
  then have "on_track_smoothed r s (replicate k c @ [x] @ replicate m c) - c =
      (1 - r) ^ m *\<^sub>R (s2 - c)"
    by (simp add: on_track_smoothed_constant)
  also have "\<dots> = (1 - r) ^ (k + 1 + m) *\<^sub>R (s - c) + ((1 - r) ^ m * r) *\<^sub>R (x - c)"
    by (simp add: 1 2 scaleR_add_right power_add mult_ac)
  finally show ?thesis .
qed

section \<open>The claims\<close>

subsection \<open>The sampling blocks\<close>

text \<open>
  C1 (as amended).  For \<open>blocks > 0\<close> and \<open>block_size > 0\<close> whose product is at most
  \<open>INT_MAX + 1\<close>, so that every index \<open>i * block_size + k\<close> is an \<open>int\<close>,
  \<open>create_sampling_blocks\<close> returns exactly \<open>blocks\<close> sequences, each of length
  \<open>block_size\<close> and increasing, the \<open>i\<close>-th being
  \<open>[i * block_size, \<dots>, i * block_size + block_size - 1]\<close>; one after the other they
  are the indices \<open>0, \<dots>, blocks * block_size - 1\<close>, each exactly once.
\<close>

theorem create_sampling_blocks_partition:
  assumes "0 < blocks" and "0 < block_size" and "blocks * block_size \<le> INT_MAX + 1"
  shows "\<exists>sb. fst (create_sampling_blocks this blocks block_size) = Inr sb
           \<and> length sb = nat blocks
           \<and> (\<forall>i < nat blocks.
                 sb ! i = [i * nat block_size ..< i * nat block_size + nat block_size]
               \<and> length (sb ! i) = nat block_size
               \<and> sorted_wrt (<) (sb ! i))
           \<and> concat sb = [0 ..< nat blocks * nat block_size]"
proof -
  let ?sb = "map (block_indices (nat block_size)) [0 ..< nat blocks]"
  have "fst (create_sampling_blocks this blocks block_size) = Inr ?sb"
    using assms by (simp add: create_sampling_blocks_char)
  moreover have "length ?sb = nat blocks" by simp
  moreover have "\<forall>i < nat blocks.
       ?sb ! i = [i * nat block_size ..< i * nat block_size + nat block_size]
     \<and> length (?sb ! i) = nat block_size \<and> sorted_wrt (<) (?sb ! i)"
    by (simp add: block_indices_def)
  moreover have "concat ?sb = [0 ..< nat blocks * nat block_size]"
    by (rule concat_block_indices)
  ultimately show ?thesis by blast
qed

text \<open>The theorem at \<open>blocks = 2\<close>, \<open>block_size = 3\<close>.\<close>

theorem create_sampling_blocks_partition_witness:
  "(0::int) < 2 \<and> (0::int) < 3 \<and> (2::int) * 3 \<le> INT_MAX + 1
   \<and> fst (create_sampling_blocks example_builder 2 3) = Inr [[0, 1, 2], [3, 4, 5]]"
proof -
  have h: "(0::int) < 2" "(0::int) < 3" "(2::int) * 3 \<le> INT_MAX + 1"
    by (simp_all add: INT_MAX_def)
  obtain sb where sb: "fst (create_sampling_blocks example_builder 2 3) = Inr sb"
    and len: "length sb = nat 2"
    and row: "\<forall>i < nat 2. sb ! i = [i * nat 3 ..< i * nat 3 + nat 3]
         \<and> length (sb ! i) = nat 3 \<and> sorted_wrt (<) (sb ! i)"
    using create_sampling_blocks_partition [OF h, of example_builder] by blast
  from len obtain x y where xy: "sb = [x, y]"
    by (auto simp: length_Suc_conv numeral_2_eq_2)
  have "sb ! 0 = [0, 1, 2]" using row by (simp add: upt_rec)
  moreover have "sb ! 1 = [3, 4, 5]" using row by (simp add: upt_rec)
  ultimately have "sb = [[0, 1, 2], [3, 4, 5]]"
    using xy by simp
  with sb h show ?thesis by simp
qed

text \<open>
  Without the bound on the product the statement of C1 fails: for three blocks of
  \<open>2^30\<close> indices, both valid \<open>int\<close>s, the index \<open>2 * 2^30\<close> of the third block
  is not an \<open>int\<close>, and no sequence of blocks is returned.
\<close>

theorem create_sampling_blocks_overflow_counterexample:
  "is_int 3 \<and> is_int 1073741824 \<and> (0::int) < 3 \<and> (0::int) < 1073741824
   \<and> fst (create_sampling_blocks example_builder 3 1073741824) = Inl SignedOverflow"
  by (simp add: create_sampling_blocks_char is_int_def INT_MAX_def INT_MIN_def)






text \<open>
  C10.  \<open>create_sampling_blocks\<close> returns the builder it was called on unchanged, in
  every field; its result is the same on any two builders, so it depends on
  \<open>blocks\<close> and \<open>block_size\<close> alone; and a second call with the same arguments
  returns what the first returned.
\<close>

theorem create_sampling_blocks_pure:
  "snd (create_sampling_blocks this blocks block_size) = this
   \<and> fst (create_sampling_blocks this blocks block_size) =
       fst (create_sampling_blocks that blocks block_size)
   \<and> create_sampling_blocks (snd (create_sampling_blocks this blocks block_size))
         blocks block_size =
       create_sampling_blocks this blocks block_size"
proof -
  have "snd (create_sampling_blocks this blocks block_size) = this"
    by (simp add: create_sampling_blocks_def)
  moreover have "fst (create_sampling_blocks this blocks block_size) =
       fst (create_sampling_blocks that blocks block_size)"
    by (simp add: create_sampling_blocks_def)
  ultimately show ?thesis by simp
qed

subsection \<open>The builder\<close>

text \<open>
  C7.  When the GPU observation model is requested and GPU support is not compiled in,
  neither \<open>create_filter\<close> nor \<open>build\<close> returns: no filter and no tracker is
  constructed, so nothing is left to fail at tracking time.  The transition model is
  built first; when that returns, the exception raised by both is
  \<open>NoGpuSupportException\<close>.
\<close>

theorem build_fails_without_gpu_support:
  assumes "use_gpu" and "\<not> dbot_build_gpu"
    and "this_obsrv_model_builder this = RbObservationModelBuilder_build dbot_build_gpu use_gpu"
  shows "isl (create_filter this object_model max_kl_div) \<and> isl (build this)
       \<and> (\<forall>stm. this_state_transition_builder this = Inr stm \<longrightarrow>
             create_filter this object_model max_kl_div = Inl NoGpuSupportException
           \<and> build this = Inl NoGpuSupportException)"
proof -
  have ob: "this_obsrv_model_builder this = Inl NoGpuSupportException"
    using assms by (simp add: RbObservationModelBuilder_build_def)
  have cf: "isl (create_filter this om kl)
      \<and> (\<forall>stm. this_state_transition_builder this = Inr stm \<longrightarrow>
             create_filter this om kl = Inl NoGpuSupportException)" for om kl
    using ob by (simp add: create_filter_def split: sum.splits)
  have "isl (build this)"
    using cf [of "this_object_model this" "max_kl_divergence (this_params this)"]
    by (auto simp: build_def split: sum.splits)
  moreover have "\<forall>stm. this_state_transition_builder this = Inr stm \<longrightarrow>
      build this = Inl NoGpuSupportException"
    using cf [of "this_object_model this" "max_kl_divergence (this_params this)"]
    by (simp add: build_def)
  ultimately show ?thesis using cf [of object_model max_kl_div] by simp
qed

text \<open>
  The theorem at \<open>gpu_builder\<close>.
\<close>

theorem build_fails_without_gpu_support_witness:
  "this_obsrv_model_builder gpu_builder = RbObservationModelBuilder_build False True
   \<and> this_state_transition_builder gpu_builder = Inr \<lparr>noise_dimension = 6\<rparr>
   \<and> create_filter gpu_builder \<lparr>count_parts = 1\<rparr> () = Inl NoGpuSupportException
   \<and> build gpu_builder = Inl NoGpuSupportException"
proof -
  have ob: "this_obsrv_model_builder gpu_builder = RbObservationModelBuilder_build False True"
    and st: "this_state_transition_builder gpu_builder = Inr \<lparr>noise_dimension = 6\<rparr>"
    by (simp_all add: gpu_builder_def new_RbcParticleFilterTrackerBuilder_def)
  show ?thesis
    using build_fails_without_gpu_support [of True False gpu_builder "\<lparr>count_parts = 1\<rparr>" "()"]
      ob st by simp
qed

text \<open>
  C8.  \<open>build\<close> is composition only.  A tracker it returns holds the filter that
  \<open>create_filter\<close> returns for the stored object model and the stored
  \<open>max_kl_divergence\<close>, which that filter carries unchanged, and beside it the stored
  object model, the stored camera data, the stored \<open>evaluation_count\<close> and the stored
  \<open>moving_average_update_rate\<close>, and nothing else.  \<open>build\<close> fails exactly when
  \<open>create_filter\<close> fails, with the same failure, and returns a tracker whenever
  \<open>create_filter\<close> returns a filter.
\<close>

theorem build_composition:
  "(\<forall>t. build this = Inr t \<longrightarrow>
        create_filter this (this_object_model this) (max_kl_divergence (this_params this))
          = Inr (tracker_filter t)
      \<and> filter_max_kl_divergence (tracker_filter t) = max_kl_divergence (this_params this)
      \<and> t = \<lparr> tracker_filter = tracker_filter t,
               tracker_object_model = this_object_model this,
               tracker_camera_data = this_camera_data this,
               tracker_evaluation_count = evaluation_count (this_params this),
               tracker_update_rate = moving_average_update_rate (this_params this) \<rparr>)
   \<and> (\<forall>e. build this = Inl e \<longleftrightarrow>
        create_filter this (this_object_model this) (max_kl_divergence (this_params this))
          = Inl e)
   \<and> (\<forall>f. create_filter this (this_object_model this) (max_kl_divergence (this_params this))
          = Inr f \<longrightarrow> (\<exists>t. build this = Inr t \<and> tracker_filter t = f))"
proof (intro conjI allI impI)
  fix t
  assume t: "build this = Inr t"
  then obtain f where
    f: "create_filter this (this_object_model this) (max_kl_divergence (this_params this)) = Inr f"
    and tf: "t = \<lparr> tracker_filter = f,
               tracker_object_model = this_object_model this,
               tracker_camera_data = this_camera_data this,
               tracker_evaluation_count = evaluation_count (this_params this),
               tracker_update_rate = moving_average_update_rate (this_params this) \<rparr>"
    by (auto simp: build_def split: sum.splits)
  show "create_filter this (this_object_model this) (max_kl_divergence (this_params this))
          = Inr (tracker_filter t)"
    using f tf by simp
  show "filter_max_kl_divergence (tracker_filter t) = max_kl_divergence (this_params this)"
    using f tf unfolding create_filter_Inr by auto
  show "t = \<lparr> tracker_filter = tracker_filter t,
               tracker_object_model = this_object_model this,
               tracker_camera_data = this_camera_data this,
               tracker_evaluation_count = evaluation_count (this_params this),
               tracker_update_rate = moving_average_update_rate (this_params this) \<rparr>"
    using tf by simp
next
  fix e
  show "build this = Inl e \<longleftrightarrow>
        create_filter this (this_object_model this) (max_kl_divergence (this_params this))
          = Inl e"
    by (auto simp: build_def split: sum.splits)
next
  fix f
  assume "create_filter this (this_object_model this) (max_kl_divergence (this_params this))
          = Inr f"
  then show "\<exists>t. build this = Inr t \<and> tracker_filter t = f"
    by (simp add: build_def)
qed

text \<open>
  The theorem at \<open>example_builder\<close>.
\<close>

theorem build_composition_witness:
  "build example_builder =
     Inr \<lparr> tracker_filter =
             \<lparr> filter_state_transition_model = \<lparr>noise_dimension = 7\<rparr>,
               filter_obsrv_model = (),
               filter_sampling_blocks = [[0, 1, 2], [3, 4, 5]],
               filter_max_kl_divergence = () \<rparr>,
           tracker_object_model = \<lparr>count_parts = 2\<rparr>,
           tracker_camera_data = (),
           tracker_evaluation_count = 100,
           tracker_update_rate = () \<rparr>
   \<and> create_filter example_builder (this_object_model example_builder)
         (max_kl_divergence (this_params example_builder)) =
       Inr \<lparr> filter_state_transition_model = \<lparr>noise_dimension = 7\<rparr>,
               filter_obsrv_model = (),
               filter_sampling_blocks = [[0, 1, 2], [3, 4, 5]],
               filter_max_kl_divergence = () \<rparr>"
proof -
  let ?f = "\<lparr> filter_state_transition_model = \<lparr>noise_dimension = 7\<rparr>,
               filter_obsrv_model = (),
               filter_sampling_blocks = [[0, 1, 2], [3, 4, 5]],
               filter_max_kl_divergence = () \<rparr>"
  have run: "create_filter example_builder (this_object_model example_builder)
         (max_kl_divergence (this_params example_builder)) = Inr ?f"
    by (simp add: run_create_filter example_builder_def)
  then obtain t where t: "build example_builder = Inr t" and tf: "tracker_filter t = ?f"
    using build_composition [of example_builder] by blast
  have "t = \<lparr> tracker_filter = tracker_filter t,
               tracker_object_model = this_object_model example_builder,
               tracker_camera_data = this_camera_data example_builder,
               tracker_evaluation_count = evaluation_count (this_params example_builder),
               tracker_update_rate = moving_average_update_rate (this_params example_builder) \<rparr>"
    using build_composition [of example_builder] t by blast
  then have "t = \<lparr> tracker_filter = ?f,
           tracker_object_model = \<lparr>count_parts = 2\<rparr>,
           tracker_camera_data = (),
           tracker_evaluation_count = 100,
           tracker_update_rate = () \<rparr>"
    using tf by (simp add: example_builder_def new_RbcParticleFilterTrackerBuilder_def)
  with t run show ?thesis by simp
qed

subsection \<open>The filter and the tracker\<close>

text \<open>
  C3.  \<open>predict\<close> leaves every particle's weight as it was and keeps the number of
  particles; each particle's new state is the transition model's output for its old
  state, the noise vector sampled for it and the given input.
\<close>

theorem predict_preserves_weights:
  "map snd (fst (predict transition sample g belief input)) = map snd belief
   \<and> length (fst (predict transition sample g belief input)) = length belief
   \<and> map fst (fst (predict transition sample g belief input)) =
       map2 (\<lambda>state noise. transition state noise input)
         (map fst belief) (sampled_noise sample g (length belief))"
proof -
  have "length (map snd (fst (predict transition sample g belief input))) =
      length (map snd belief)"
    by (simp only: predict_weights)
  then have "length (fst (predict transition sample g belief input)) = length belief"
    by simp
  then show ?thesis
    by (simp add: predict_weights predict_states)
qed

text \<open>
  C6.  For an update rate in \<open>(0, 1]\<close>: on a stream of identical point estimates the
  smoothed output converges to that estimate, from any smoothing state; a single outlier
  amid constant estimates, arriving when the smoothing state is the constant, leaves the
  smoothed output within the update rate times the outlier's deviation of the constant,
  at the outlier and ever after.  From any other smoothing state \<open>s\<close> the deviation
  is within that bound plus what is left of the deviation of \<open>s\<close>.
\<close>

theorem moving_average_smoothing:
  fixes c s x :: "'a::real_normed_vector"
  assumes "0 < r" and "r \<le> 1"
  shows "(\<lambda>n. on_track_smoothed r s (replicate n c)) \<longlonglongrightarrow> c
       \<and> norm (on_track_smoothed r c (replicate k c @ [x] @ replicate m c) - c)
           \<le> r * norm (x - c)
       \<and> norm (on_track_smoothed r s (replicate k c @ [x] @ replicate m c) - c)
           \<le> (1 - r) ^ (k + 1 + m) * norm (s - c) + r * norm (x - c)"
proof (intro conjI)
  have r0: "0 \<le> 1 - r" and r1: "1 - r < 1" using assms by simp_all
  have "(\<lambda>n. (1 - r) ^ n) \<longlonglongrightarrow> 0"
    using r0 r1 by (rule LIMSEQ_realpow_zero)
  then have "(\<lambda>n. (1 - r) ^ n *\<^sub>R (s - c)) \<longlonglongrightarrow> 0 *\<^sub>R (s - c)"
    by (intro tendsto_scaleR tendsto_const)
  then have "(\<lambda>n. on_track_smoothed r s (replicate n c) - c) \<longlonglongrightarrow> 0"
    by (simp add: on_track_smoothed_constant)
  then show "(\<lambda>n. on_track_smoothed r s (replicate n c)) \<longlonglongrightarrow> c"
    by (rule LIM_zero_cancel)
next
  have r0: "0 \<le> 1 - r" using assms by simp
  have p0: "0 \<le> (1 - r) ^ j" for j using r0 by simp
  have p1: "(1 - r) ^ j \<le> 1" for j using r0 assms(1) by (simp add: power_le_one)
  have gen: "norm (on_track_smoothed r t (replicate k c @ [x] @ replicate m c) - c)
           \<le> (1 - r) ^ (k + 1 + m) * norm (t - c) + r * norm (x - c)" for t
  proof -
    have "norm (on_track_smoothed r t (replicate k c @ [x] @ replicate m c) - c)
        \<le> norm ((1 - r) ^ (k + 1 + m) *\<^sub>R (t - c)) + norm (((1 - r) ^ m * r) *\<^sub>R (x - c))"
      unfolding on_track_smoothed_outlier by (rule norm_triangle_ineq)
    also have "norm ((1 - r) ^ (k + 1 + m) *\<^sub>R (t - c)) = (1 - r) ^ (k + 1 + m) * norm (t - c)"
      using p0 [of "k + 1 + m"] by simp
    also have "norm (((1 - r) ^ m * r) *\<^sub>R (x - c)) = (1 - r) ^ m * (r * norm (x - c))"
      using p0 [of m] assms(1) by (simp add: abs_mult)
    also have "(1 - r) ^ m * (r * norm (x - c)) \<le> 1 * (r * norm (x - c))"
      using p1 [of m] assms(1) by (intro mult_right_mono) simp_all
    finally show ?thesis by simp
  qed
  show "norm (on_track_smoothed r s (replicate k c @ [x] @ replicate m c) - c)
           \<le> (1 - r) ^ (k + 1 + m) * norm (s - c) + r * norm (x - c)"
    by (rule gen)
  show "norm (on_track_smoothed r c (replicate k c @ [x] @ replicate m c) - c)
           \<le> r * norm (x - c)"
    using gen [of c] by simp
qed

text \<open>
  The theorem at update rate \<open>1/4\<close>: the stream \<open>8, 8, 16, 8\<close> from the smoothing
  state 8, and the constant stream of 8 from the smoothing state 0.
\<close>

theorem moving_average_smoothing_witness:
  "(0::real) < 1 / 4 \<and> (1::real) / 4 \<le> 1
   \<and> (\<lambda>n. on_track_smoothed (1 / 4) (0::real) (replicate n 8)) \<longlonglongrightarrow> 8
   \<and> norm (on_track_smoothed (1 / 4) (8::real) (replicate 2 8 @ [16] @ replicate 1 8) - 8)
        \<le> 1 / 4 * norm (16 - (8::real))
   \<and> on_track_smoothed (1 / 4) (8::real) (replicate 2 8 @ [16] @ replicate 1 8) = 19 / 2"
proof -
  have h: "(0::real) < 1 / 4" "(1::real) / 4 \<le> 1" by simp_all
  have run: "on_track_smoothed (1 / 4) (8::real) (replicate 2 8 @ [16] @ replicate 1 8) = 19 / 2"
    by (simp add: update_moving_average_def numeral_2_eq_2)
  note inst = moving_average_smoothing
    [OF h, where s = "0::real" and c = 8 and k = 2 and x = 16 and m = 1]
  from inst have lim: "(\<lambda>n. on_track_smoothed (1 / 4) (0::real) (replicate n 8)) \<longlonglongrightarrow> 8"
    by (rule conjunct1)
  from inst have bound:
    "norm (on_track_smoothed (1 / 4) (8::real) (replicate 2 8 @ [16] @ replicate 1 8) - 8)
        \<le> 1 / 4 * norm (16 - (8::real))"
    by (elim conjE)
  show ?thesis
    by (intro conjI h lim bound run)
qed

end
